theory Spec2Isabelle
  imports Complex_Main "HOL-Library.AList"
begin

section \<open>The blog layout and its dark-mode toggle (src/components/layout.js)\<close>

text \<open>
  The file holds two things: the component \<open>layout.js\<close> (a function component
  \<open>DarkModeToggle\<close> and a class component \<open>Layout\<close>), and the tutorial that
  builds the same toggle on a React context (\<open>ThemeContext.js\<close>, \<open>header.js\<close>).
  Both are embedded below. A rendered React tree is a value of the datatype
  \<open>element\<close>; the theme, which the components read through a hook, is passed
  explicitly and handed back by every render.
\<close>

subsection \<open>Rendered trees\<close>

text \<open>
  A value of a JSX \<open>style\<close> object: a string (\<open>`none`\<close>) or a number (\<open>0\<close>, \<open>42\<close>).
  A style object is the list of its keys with their values, in insertion order.
\<close>

datatype css = Str string | Num int

type_synonym style = "(string \<times> css) list"

text \<open>The host elements that \<open>layout.js\<close> writes.\<close>

datatype tag = H1 | H3 | Div | Header | Main

subsection \<open>The theme state holder\<close>

text \<open>
  The theme is one boolean flag. The external preference storage is either
  unavailable, or available and holding a stored preference or nothing.
\<close>

record theme =
  isDark :: bool

datatype storage = Unavailable | Available "bool option"

text \<open>
  Modelled from the spec: the hook \<open>useDarkMode\<close> of the package \<open>use-dark-mode\<close>
  is imported by \<open>layout.js\<close> and is not under src/. Section 4.1 gives its contract:
  \<open>getValue\<close> returns the current flag, \<open>toggle\<close> flips it, and neither has an
  error condition.
\<close>

definition getValue :: "theme \<Rightarrow> bool" where
  "getValue t = isDark t"

definition toggle :: "theme \<Rightarrow> theme" where
  "toggle t = t\<lparr>isDark := \<not> isDark t\<rparr>"

text \<open>
  Modelled from the spec: the flag is initialised on the first load of the page
  (sections 3 and 6: the persisted preference is read on load; section 7: with the
  storage unavailable the default is taken and nothing fails). The default is the
  argument of the hook.
\<close>

definition initialTheme :: "bool \<Rightarrow> storage \<Rightarrow> theme" where
  "initialTheme initialValue st =
     (case st of
        Unavailable \<Rightarrow> \<lparr>isDark = initialValue\<rparr>
      | Available None \<Rightarrow> \<lparr>isDark = initialValue\<rparr>
      | Available (Some b) \<Rightarrow> \<lparr>isDark = b\<rparr>)"

text \<open>
  The object the hook returns: the fields \<open>value\<close> and \<open>toggle\<close> that
  \<open>DarkModeToggle\<close> reads.
\<close>

record dark_mode =
  dm_value :: bool
  dm_toggle :: "theme \<Rightarrow> theme"

text \<open>
  Modelled from the spec: a call of the hook. The hook's state cell is \<open>None\<close> before
  the first render of the page, when the flag is initialised; afterwards the
  argument is ignored, as React hooks do. The call returns the object and the theme,
  which reading does not change.
\<close>

definition useDarkMode :: "bool \<Rightarrow> storage \<Rightarrow> theme option \<Rightarrow> dark_mode \<times> theme" where
  "useDarkMode initialValue st cell =
     (let t = (case cell of None \<Rightarrow> initialTheme initialValue st | Some t' \<Rightarrow> t')
      in (\<lparr>dm_value = getValue t, dm_toggle = toggle\<rparr>, t))"

subsection \<open>Elements\<close>

text \<open>
  \<open>Text\<close> is a string child (\<open>{title}\<close>), \<open>Children\<close> the opaque \<open>{children}\<close>,
  \<open>Tag\<close> a host element with its style and children, \<open>Link\<close> the Gatsby link with
  its style, its \<open>to\<close> and its children, \<open>Img\<close> an image with \<open>src\<close> and \<open>alt\<close>,
  and \<open>Switch\<close> the react-switch element with the eight props that
  \<open>DarkModeToggle\<close> passes, in the order of the source.
\<close>

datatype 'c element =
    Text string
  | Children 'c
  | Tag tag style "'c element list"
  | Link style string "'c element list"
  | Img string string
  | Switch (onChange: "theme \<Rightarrow> theme") (checked: bool)
      (onColor: string) (offColor: string)
      (checkedIcon: "'c element") (uncheckedIcon: "'c element")
      (boxShadow: string) (activeBoxShadow: string)

subsection \<open>The environment of the module\<close>

text \<open>
  What \<open>layout.js\<close> imports or finds in scope and this repository's src/ does not
  hold: the build constant \<open>__PATH_PREFIX__\<close>, the functions \<open>rhythm\<close> and \<open>scale\<close>
  of \<open>../utils/typography\<close>, and the paths of the two icons. They are parameters.
  The numeric literals of the source (\<open>.9\<close>, \<open>24\<close>, \<open>1.5\<close>, \<open>3 / 4\<close>) are handed to
  \<open>scale\<close> and \<open>rhythm\<close> as they are written.
\<close>

record env =
  PATH_PREFIX :: string
  scale :: "rat \<Rightarrow> style"
  rhythm :: "rat \<Rightarrow> string"
  sunIcon :: string
  moonIcon :: string

record location =
  pathname :: string

record 'c props =
  location :: location
  title :: string
  children :: 'c

subsection \<open>DarkModeToggle (lines 10 to 25)\<close>

definition DarkModeToggle :: "env \<Rightarrow> storage \<Rightarrow> theme option \<Rightarrow> 'c element \<times> theme" where
  "DarkModeToggle e st cell =
     (let (darkMode, t) = useDarkMode False st cell
      in (Switch (dm_toggle darkMode) (dm_value darkMode)
            ''#222'' ''#333''
            (Img (moonIcon e) ''moon icon'')
            (Img (sunIcon e) ''sun icon'')
            ''0 0 2px 3px #B38CD9''
            ''0 0 2px 3px #dfb3e6'', t))"

subsection \<open>Layout.render (lines 28 to 98)\<close>

text \<open>
  The \<open>if\<close> of lines 33 to 73, which assigns \<open>header\<close> in both branches. The object
  spread \<open>{...scale(.9), margin: 0}\<close> copies the keys of \<open>scale(.9)\<close> and then sets
  \<open>margin\<close>, in place when the key is there and at the end otherwise.
\<close>

definition Layout_header :: "env \<Rightarrow> 'c props \<Rightarrow> 'c element" where
  "Layout_header e ps =
     (let rootPath = PATH_PREFIX e @ ''/''
      in if pathname (location ps) = rootPath
         then Tag H1 (AList.update ''margin'' (Num 0) (scale e (9 / 10)))
                [Link [(''boxShadow'', Str ''none''),
                       (''textDecoration'', Str ''none''),
                       (''color'', Str ''inherit'')]
                   ''/'' [Text (title ps)]]
         else Tag H3 [(''fontFamily'', Str ''Montserrat, sans-serif''),
                      (''margin'', Num 0)]
                [Link [(''boxShadow'', Str ''none''),
                       (''textDecoration'', Str ''none''),
                       (''color'', Str ''inherit'')]
                   ''/'' [Text (title ps)]])"

text \<open>
  The returned tree of lines 74 to 97, with the element \<open><DarkModeToggle />\<close>
  rendered in place: React calls the function component with the hook's state.
\<close>

definition Layout_render :: "env \<Rightarrow> storage \<Rightarrow> 'c props \<Rightarrow> theme option \<Rightarrow> 'c element \<times> theme" where
  "Layout_render e st ps cell =
     (let header = Layout_header e ps;
          (darkModeToggle, t) = DarkModeToggle e st cell
      in (Tag Div [(''marginLeft'', Str ''auto''),
                   (''marginRight'', Str ''auto''),
                   (''maxWidth'', Str (rhythm e 24)),
                   (''padding'', Str (rhythm e (3 / 2) @ '' '' @ rhythm e (3 / 4)))]
            [Tag Header [(''height'', Num 42),
                         (''display'', Str ''flex''),
                         (''justifyContent'', Str ''space-between''),
                         (''alignItems'', Str ''center''),
                         (''marginBottom'', Str (rhythm e (3 / 2)))]
               [header, darkModeToggle],
             Tag Main [] [Children (children ps)]], t))"

subsection \<open>Reading a rendered tree\<close>

text \<open>The level of a heading element: 1 for \<open>h1\<close>, 3 for \<open>h3\<close>.\<close>

fun heading_level :: "'c element \<Rightarrow> nat option" where
  "heading_level (Tag H1 s cs) = Some 1"
| "heading_level (Tag H3 s cs) = Some 3"
| "heading_level x = None"

fun style_of :: "'c element \<Rightarrow> style" where
  "style_of (Tag g s cs) = s"
| "style_of (Link s to cs) = s"
| "style_of x = []"

text \<open>The link that is the only child of an element: its target and its children.\<close>

fun heading_link :: "'c element \<Rightarrow> (string \<times> 'c element list) option" where
  "heading_link (Tag g s [Link ls to cs]) = Some (to, cs)"
| "heading_link x = None"

text \<open>The heading of a tree that \<open>Layout.render\<close> returns: the first child of the header.\<close>

fun heading_of :: "'c element \<Rightarrow> 'c element option" where
  "heading_of (Tag Div s [Tag Header hs (h # rest), m]) = Some h"
| "heading_of x = None"

text \<open>The toggle control of such a tree: the second child of the header.\<close>

fun toggle_of :: "'c element \<Rightarrow> 'c element option" where
  "toggle_of (Tag Div s [Tag Header hs [h, sw], m]) = Some sw"
| "toggle_of x = None"

text \<open>
  Modelled from the spec: what the control of the package \<open>react-switch\<close> (not under
  src/) displays. Section 4.2: it represents on (dark) against off (light) with one
  icon per state and one track colour per state; the props \<open>checkedIcon\<close> and
  \<open>onColor\<close> are those of the checked state, \<open>uncheckedIcon\<close> and \<open>offColor\<close>
  those of the unchecked state.
\<close>

definition shownIcon :: "'c element \<Rightarrow> 'c element" where
  "shownIcon sw = (if checked sw then checkedIcon sw else uncheckedIcon sw)"

definition trackColor :: "'c element \<Rightarrow> string" where
  "trackColor sw = (if checked sw then onColor sw else offColor sw)"

subsection \<open>The page session\<close>

text \<open>
  After the first render, two things happen to the page: React renders \<open>Layout\<close>
  again (with any props), or the user changes the switch, which calls the
  \<open>onChange\<close> prop of the switch that is on the page.
\<close>

datatype 'c event = Render "'c props" | Change

fun step :: "env \<Rightarrow> storage \<Rightarrow> 'c event \<Rightarrow> theme \<Rightarrow> theme" where
  "step e st (Render ps) t = snd (Layout_render e st ps (Some t))"
| "step e st Change t =
     onChange (fst (DarkModeToggle e st (Some t) :: 'c element \<times> theme)) t"

fun run :: "env \<Rightarrow> storage \<Rightarrow> 'c event list \<Rightarrow> theme \<Rightarrow> theme" where
  "run e st [] t = t"
| "run e st (ev # evs) t = run e st evs (step e st ev t)"

text \<open>A session: the first render of the page, then the events in order.\<close>

definition session :: "env \<Rightarrow> storage \<Rightarrow> 'c props \<Rightarrow> 'c event list \<Rightarrow> theme" where
  "session e st ps evs = run e st evs (snd (Layout_render e st ps None))"

subsection \<open>The tutorial's theme on a context (ThemeContext.js, header.js)\<close>

text \<open>
  \<open>ThemeProvider\<close> holds the name of the theme, \<open>useState("light")\<close>, and hands
  \<open>setTheme\<close> down as \<open>updateTheme\<close>. The switch of \<open>Header\<close> is checked when the
  name is \<open>"dark"\<close>, and its \<open>onChange\<close> sets the name to
  \<open>theme.name === "light" ? "dark" : "light"\<close>.
\<close>

definition ThemeProvider_initial :: string where
  "ThemeProvider_initial = ''light''"

definition Header_onChange :: "string \<Rightarrow> string" where
  "Header_onChange name = (if name = ''light'' then ''dark'' else ''light'')"

definition Header_checked :: "string \<Rightarrow> bool" where
  "Header_checked name = (name = ''dark'')"

text \<open>The object \<open>themes\<close> that \<open>ThemedLayout\<close> indexes by the name.\<close>

record palette =
  foreground :: string
  background :: string

definition themes :: "(string \<times> palette) list" where
  "themes =
     [(''light'', \<lparr>foreground = ''inherit'', background = ''inherit''\<rparr>),
      (''dark'', \<lparr>foreground = ''#ffffff'', background = ''#222222''\<rparr>)]"

subsection \<open>A site for the examples\<close>

text \<open>
  A site with no path prefix, whose typography scale sets the font size and the line
  height.
\<close>

definition demo_env :: env where
  "demo_env =
     \<lparr>PATH_PREFIX = [],
      scale = (\<lambda>r. [(''fontSize'', Str ''1.5rem''), (''lineHeight'', Str ''1.1'')]),
      rhythm = (\<lambda>r. ''1rem''),
      sunIcon = ''/static/sun-icon.svg'',
      moonIcon = ''/static/moon-icon.svg''\<rparr>"

definition demo_props :: "string \<Rightarrow> unit props" where
  "demo_props p = \<lparr>location = \<lparr>pathname = p\<rparr>, title = ''My Blog'', children = ()\<rparr>"


section \<open>Properties\<close>

subsection \<open>What the renders compute\<close>

lemma DarkModeToggle_Some:
  "DarkModeToggle e st (Some t) =
     (Switch toggle (isDark t) ''#222'' ''#333''
        (Img (moonIcon e) ''moon icon'') (Img (sunIcon e) ''sun icon'')
        ''0 0 2px 3px #B38CD9'' ''0 0 2px 3px #dfb3e6'', t)"
  by (simp add: DarkModeToggle_def useDarkMode_def getValue_def)

lemma DarkModeToggle_None:
  "DarkModeToggle e st None =
     (Switch toggle (isDark (initialTheme False st)) ''#222'' ''#333''
        (Img (moonIcon e) ''moon icon'') (Img (sunIcon e) ''sun icon'')
        ''0 0 2px 3px #B38CD9'' ''0 0 2px 3px #dfb3e6'', initialTheme False st)"
  by (simp add: DarkModeToggle_def useDarkMode_def getValue_def Let_def)

lemma snd_DarkModeToggle:
  "snd (DarkModeToggle e st cell) =
     (case cell of None \<Rightarrow> initialTheme False st | Some t \<Rightarrow> t)"
  by (cases cell) (simp_all add: DarkModeToggle_Some DarkModeToggle_None)

lemma snd_Layout_render:
  "snd (Layout_render e st ps cell) =
     (case cell of None \<Rightarrow> initialTheme False st | Some t \<Rightarrow> t)"
  by (cases cell) (simp_all add: Layout_render_def DarkModeToggle_Some DarkModeToggle_None)

lemma heading_of_Layout_render:
  "heading_of (fst (Layout_render e st ps cell)) = Some (Layout_header e ps)"
  by (simp add: Layout_render_def split: prod.split)

lemma toggle_of_Layout_render:
  "toggle_of (fst (Layout_render e st ps cell)) = Some (fst (DarkModeToggle e st cell))"
  by (simp add: Layout_render_def split: prod.split)

lemma step_Render: "step e st (Render ps) t = t"
  by (simp add: snd_Layout_render)

lemma step_Change: "step e st Change t = toggle t"
  by (simp add: DarkModeToggle_Some)

lemma toggle_toggle: "toggle (toggle t) = t"
  by (simp add: toggle_def)

lemma isDark_toggle: "isDark (toggle t) = (\<not> isDark t)"
  by (simp add: toggle_def)

lemma run_toggles:
  "run e st evs t = (toggle ^^ length (filter (\<lambda>ev. ev = Change) evs)) t"
proof (induction evs arbitrary: t)
  case Nil
  show ?case by simp
next
  case (Cons ev evs)
  show ?case
  proof (cases ev)
    case (Render ps)
    then show ?thesis using Cons.IH [of t] by (simp add: snd_Layout_render)
  next
    case Change
    then show ?thesis using Cons.IH [of "toggle t"] by (simp add: DarkModeToggle_Some funpow_swap1)
  qed
qed

text \<open>
  Claim C1. Toggling twice gives the flag back. For the hook's \<open>toggle\<close>: two calls
  return the theme they started from, one call negates the flag, and two change
  events on the rendered switch leave the theme as it was. For the tutorial's
  handler: from either theme name, \<open>"light"\<close> or \<open>"dark"\<close>, two changes give the
  name back and one change flips \<open>checked\<close>.
\<close>
theorem toggle_twice:
  "toggle (toggle t) = t \<and>
   getValue (toggle t) = (\<not> getValue t) \<and>
   getValue (toggle (toggle t)) = getValue t \<and>
   step e st (Change :: 'c event) (step e st (Change :: 'c event) t) = t \<and>
   (name = ''light'' \<or> name = ''dark'' \<longrightarrow>
      Header_onChange (Header_onChange name) = name \<and>
      Header_checked (Header_onChange name) = (\<not> Header_checked name) \<and>
      Header_checked (Header_onChange (Header_onChange name)) = Header_checked name)"
  by (auto simp: toggle_toggle isDark_toggle getValue_def DarkModeToggle_Some
      Header_onChange_def Header_checked_def)

theorem toggle_twice_witness:
  "toggle (toggle \<lparr>isDark = True\<rparr>) = \<lparr>isDark = True\<rparr> \<and>
   Header_onChange (Header_onChange ''dark'') = ''dark'' \<and>
   Header_checked (Header_onChange ''dark'') = (\<not> Header_checked ''dark'') \<and>
   Header_onChange (Header_onChange ''light'') = ''light'' \<and>
   Header_checked (Header_onChange ''light'') = (\<not> Header_checked ''light'')"
  using toggle_twice [of "\<lparr>isDark = True\<rparr>" demo_env Unavailable "''dark''"]
    toggle_twice [of "\<lparr>isDark = True\<rparr>" demo_env Unavailable "''light''"]
  by blast


lemma Layout_render_tree:
  "Layout_render e st ps cell =
     (Tag Div [(''marginLeft'', Str ''auto''),
               (''marginRight'', Str ''auto''),
               (''maxWidth'', Str (rhythm e 24)),
               (''padding'', Str (rhythm e (3 / 2) @ '' '' @ rhythm e (3 / 4)))]
        [Tag Header [(''height'', Num 42),
                     (''display'', Str ''flex''),
                     (''justifyContent'', Str ''space-between''),
                     (''alignItems'', Str ''center''),
                     (''marginBottom'', Str (rhythm e (3 / 2)))]
           [Layout_header e ps, fst (DarkModeToggle e st cell)],
         Tag Main [] [Children (children ps)]],
      snd (DarkModeToggle e st cell :: 'c element \<times> theme))"
  for ps :: "'c props"
  by (cases "DarkModeToggle e st cell :: 'c element \<times> theme") (simp add: Layout_render_def)

lemma heading_level_Layout_header:
  "heading_level (Layout_header e ps) =
     (if pathname (location ps) = PATH_PREFIX e @ ''/'' then Some 1 else Some 3)"
  by (simp add: Layout_header_def)

lemma heading_link_Layout_header:
  "heading_link (Layout_header e ps) = Some (''/'', [Text (title ps)])"
  by (simp add: Layout_header_def)

lemma style_of_Layout_header:
  "style_of (Layout_header e ps) =
     (if pathname (location ps) = PATH_PREFIX e @ ''/''
      then AList.update ''margin'' (Num 0) (scale e (9 / 10))
      else [(''fontFamily'', Str ''Montserrat, sans-serif''), (''margin'', Num 0)])"
  by (simp add: Layout_header_def)

text \<open>
  Claim C2, as the code has it. For every route path the tree that \<open>Layout.render\<close>
  returns has a heading whose only child is a link to \<open>/\<close> holding the title. When
  the path is the site root \<open>`${__PATH_PREFIX__}/`\<close> the heading is an \<open>h1\<close> that
  carries a style: \<open>scale(.9)\<close> with \<open>margin\<close> set to 0, so the style is never empty
  and its \<open>margin\<close> is 0. On any other path the heading is an \<open>h3\<close> whose style is
  the fixed font family \<open>Montserrat, sans-serif\<close> with \<open>margin\<close> 0.
\<close>
theorem Layout_heading_by_route:
  "\<exists>h. heading_of (fst (Layout_render e st ps cell)) = Some h \<and>
     heading_link h = Some (''/'', [Text (title ps)]) \<and>
     (pathname (location ps) = PATH_PREFIX e @ ''/'' \<longrightarrow>
        heading_level h = Some 1 \<and>
        style_of h = AList.update ''margin'' (Num 0) (scale e (9 / 10)) \<and>
        style_of h \<noteq> [] \<and>
        map_of (style_of h) ''margin'' = Some (Num 0)) \<and>
     (pathname (location ps) \<noteq> PATH_PREFIX e @ ''/'' \<longrightarrow>
        heading_level h = Some 3 \<and>
        style_of h = [(''fontFamily'', Str ''Montserrat, sans-serif''), (''margin'', Num 0)] \<and>
        map_of (style_of h) ''fontFamily'' = Some (Str ''Montserrat, sans-serif'') \<and>
        map_of (style_of h) ''margin'' = Some (Num 0))"
proof -
  let ?h = "Layout_header e ps"
  have "heading_of (fst (Layout_render e st ps cell)) = Some ?h"
    by (rule heading_of_Layout_render)
  moreover have "heading_link ?h = Some (''/'', [Text (title ps)])"
    by (rule heading_link_Layout_header)
  moreover have "pathname (location ps) = PATH_PREFIX e @ ''/'' \<longrightarrow>
        heading_level ?h = Some 1 \<and>
        style_of ?h = AList.update ''margin'' (Num 0) (scale e (9 / 10)) \<and>
        style_of ?h \<noteq> [] \<and>
        map_of (style_of ?h) ''margin'' = Some (Num 0)"
    by (simp add: heading_level_Layout_header style_of_Layout_header AList.update_conv')
  moreover have "pathname (location ps) \<noteq> PATH_PREFIX e @ ''/'' \<longrightarrow>
        heading_level ?h = Some 3 \<and>
        style_of ?h = [(''fontFamily'', Str ''Montserrat, sans-serif''), (''margin'', Num 0)] \<and>
        map_of (style_of ?h) ''fontFamily'' = Some (Str ''Montserrat, sans-serif'') \<and>
        map_of (style_of ?h) ''margin'' = Some (Num 0)"
    by (simp add: heading_level_Layout_header style_of_Layout_header)
  ultimately show ?thesis by blast
qed

theorem Layout_heading_by_route_witness:
  "(\<exists>h. heading_of (fst (Layout_render demo_env Unavailable (demo_props ''/'') None)) = Some h \<and>
      heading_link h = Some (''/'', [Text ''My Blog'']) \<and>
      heading_level h = Some 1 \<and>
      style_of h =
        [(''fontSize'', Str ''1.5rem''), (''lineHeight'', Str ''1.1''), (''margin'', Num 0)]) \<and>
   (\<exists>h. heading_of (fst (Layout_render demo_env Unavailable (demo_props ''/about'') None)) = Some h \<and>
      heading_link h = Some (''/'', [Text ''My Blog'']) \<and>
      heading_level h = Some 3 \<and>
      style_of h = [(''fontFamily'', Str ''Montserrat, sans-serif''), (''margin'', Num 0)])"
proof -
  have root: "pathname (location (demo_props ''/'')) = PATH_PREFIX demo_env @ ''/''"
    by (simp add: demo_props_def demo_env_def)
  have other: "pathname (location (demo_props ''/about'')) \<noteq> PATH_PREFIX demo_env @ ''/''"
    by (simp add: demo_props_def demo_env_def)
  have scale: "AList.update ''margin'' (Num 0) (scale demo_env (9 / 10)) =
      [(''fontSize'', Str ''1.5rem''), (''lineHeight'', Str ''1.1''), (''margin'', Num 0)]"
    by (simp add: demo_env_def)
  have title: "title (demo_props p) = ''My Blog''" for p
    by (simp add: demo_props_def)
  from Layout_heading_by_route [of demo_env Unavailable "demo_props ''/''" None] root scale title
  have "\<exists>h. heading_of (fst (Layout_render demo_env Unavailable (demo_props ''/'') None)) = Some h \<and>
      heading_link h = Some (''/'', [Text ''My Blog'']) \<and>
      heading_level h = Some 1 \<and>
      style_of h =
        [(''fontSize'', Str ''1.5rem''), (''lineHeight'', Str ''1.1''), (''margin'', Num 0)]"
    by auto
  moreover
  from Layout_heading_by_route [of demo_env Unavailable "demo_props ''/about''" None] other title
  have "\<exists>h. heading_of (fst (Layout_render demo_env Unavailable (demo_props ''/about'') None)) = Some h \<and>
      heading_link h = Some (''/'', [Text ''My Blog'']) \<and>
      heading_level h = Some 3 \<and>
      style_of h = [(''fontFamily'', Str ''Montserrat, sans-serif''), (''margin'', Num 0)]"
    by auto
  ultimately show ?thesis by blast
qed

text \<open>
  The root heading is not without a style. On the example site, at the root path
  \<open>/\<close>, the heading that \<open>Layout.render\<close> returns is an \<open>h1\<close> whose style holds
  the font size and line height of \<open>scale(.9)\<close> and the \<open>margin: 0\<close> that \<open>Layout\<close>
  itself writes (lines 36 to 39).
\<close>

theorem root_heading_styled_counterexample:
  "pathname (location (demo_props ''/'')) = PATH_PREFIX demo_env @ ''/'' \<and>
   heading_of (fst (Layout_render demo_env Unavailable (demo_props ''/'') None)) =
     Some (Tag H1
       [(''fontSize'', Str ''1.5rem''), (''lineHeight'', Str ''1.1''), (''margin'', Num 0)]
       [Link [(''boxShadow'', Str ''none''),
              (''textDecoration'', Str ''none''),
              (''color'', Str ''inherit'')]
          ''/'' [Text ''My Blog'']]) \<and>
   style_of (Layout_header demo_env (demo_props ''/'')) \<noteq> [] \<and>
   map_of (style_of (Layout_header demo_env (demo_props ''/''))) ''margin'' = Some (Num 0)"
  by (simp add: heading_of_Layout_render Layout_header_def demo_env_def demo_props_def)

text \<open>
  Claim C4. On a site with no path prefix, whose root is \<open>/\<close>, rendering at path
  \<open>/\<close> with title \<open>My Blog\<close> gives an \<open>h1\<close> holding a link to \<open>/\<close> with the text
  \<open>My Blog\<close>. Rendering at \<open>/posts/1\<close> gives an \<open>h3\<close> with the same link, whatever
  the path prefix is.
\<close>
theorem Layout_scenarios:
  "(PATH_PREFIX e = [] \<longrightarrow>
      (\<exists>h. heading_of (fst (Layout_render e st
              \<lparr>location = \<lparr>pathname = ''/''\<rparr>, title = ''My Blog'', children = c\<rparr> cell)) = Some h \<and>
         heading_level h = Some 1 \<and>
         heading_link h = Some (''/'', [Text ''My Blog'']))) \<and>
   (\<exists>h. heading_of (fst (Layout_render e st
           \<lparr>location = \<lparr>pathname = ''/posts/1''\<rparr>, title = ''My Blog'', children = c\<rparr> cell)) = Some h \<and>
      heading_level h = Some 3 \<and>
      heading_link h = Some (''/'', [Text ''My Blog'']))"
  by (simp add: heading_of_Layout_render heading_level_Layout_header heading_link_Layout_header)

theorem Layout_scenarios_witness:
  "(\<exists>h. heading_of (fst (Layout_render demo_env (Available None)
           \<lparr>location = \<lparr>pathname = ''/''\<rparr>, title = ''My Blog'', children = ()\<rparr> None)) = Some h \<and>
      heading_level h = Some 1 \<and>
      heading_link h = Some (''/'', [Text ''My Blog''])) \<and>
   (\<exists>h. heading_of (fst (Layout_render demo_env (Available None)
           \<lparr>location = \<lparr>pathname = ''/posts/1''\<rparr>, title = ''My Blog'', children = ()\<rparr> None)) = Some h \<and>
      heading_level h = Some 3 \<and>
      heading_link h = Some (''/'', [Text ''My Blog'']))"
proof -
  have "PATH_PREFIX demo_env = []"
    by (simp add: demo_env_def)
  with Layout_scenarios [of demo_env "Available None" "()" None] show ?thesis
    by blast
qed


lemma initialTheme_first_load:
  "initialTheme d Unavailable = \<lparr>isDark = d\<rparr>"
  "initialTheme d (Available None) = \<lparr>isDark = d\<rparr>"
  "initialTheme d (Available (Some b)) = \<lparr>isDark = b\<rparr>"
  by (simp_all add: initialTheme_def)

lemma theme_cases: "t = \<lparr>isDark = True\<rparr> \<or> t = \<lparr>isDark = False\<rparr>"
  by (cases t) auto

text \<open>
  Claim C3. With the flag true the switch is checked and shows the moon icon on the
  track colour \<open>#222\<close>; with the flag false it is unchecked and shows the sun icon
  on \<open>#333\<close>. The two icons differ and the two track colours differ.
\<close>
theorem DarkModeToggle_display:
  "checked (fst (DarkModeToggle e st (Some \<lparr>isDark = True\<rparr>)) :: 'c element) = True \<and>
   shownIcon (fst (DarkModeToggle e st (Some \<lparr>isDark = True\<rparr>)) :: 'c element) =
     Img (moonIcon e) ''moon icon'' \<and>
   trackColor (fst (DarkModeToggle e st (Some \<lparr>isDark = True\<rparr>)) :: 'c element) = ''#222'' \<and>
   checked (fst (DarkModeToggle e st (Some \<lparr>isDark = False\<rparr>)) :: 'c element) = False \<and>
   shownIcon (fst (DarkModeToggle e st (Some \<lparr>isDark = False\<rparr>)) :: 'c element) =
     Img (sunIcon e) ''sun icon'' \<and>
   trackColor (fst (DarkModeToggle e st (Some \<lparr>isDark = False\<rparr>)) :: 'c element) = ''#333'' \<and>
   shownIcon (fst (DarkModeToggle e st (Some \<lparr>isDark = True\<rparr>)) :: 'c element) \<noteq>
     shownIcon (fst (DarkModeToggle e st (Some \<lparr>isDark = False\<rparr>))) \<and>
   trackColor (fst (DarkModeToggle e st (Some \<lparr>isDark = True\<rparr>)) :: 'c element) \<noteq>
     trackColor (fst (DarkModeToggle e st (Some \<lparr>isDark = False\<rparr>)) :: 'c element)"
  by (simp add: DarkModeToggle_Some shownIcon_def trackColor_def)

text \<open>
  Claim C5. On the first load, with nothing stored, the flag is false and the switch
  is rendered unchecked; after one change event the flag is true. The tutorial's
  provider starts at \<open>"light"\<close>, where the switch is unchecked, and one change
  checks it.
\<close>
theorem first_load_light_then_toggle:
  "isDark (snd (Layout_render e (Available None) ps None)) = False \<and>
   toggle_of (fst (Layout_render e (Available None) ps None)) =
     Some (Switch toggle False ''#222'' ''#333''
       (Img (moonIcon e) ''moon icon'') (Img (sunIcon e) ''sun icon'')
       ''0 0 2px 3px #B38CD9'' ''0 0 2px 3px #dfb3e6'') \<and>
   isDark (session e (Available None) ps []) = False \<and>
   isDark (session e (Available None) ps [Change]) = True \<and>
   Header_checked ThemeProvider_initial = False \<and>
   Header_checked (Header_onChange ThemeProvider_initial) = True"
  by (simp add: session_def Layout_render_tree DarkModeToggle_None DarkModeToggle_Some
      initialTheme_first_load isDark_toggle
      Header_checked_def Header_onChange_def ThemeProvider_initial_def)

text \<open>
  Claim C6. With the storage unavailable the first render returns its whole tree,
  heading and unchecked switch, and the flag is false: the light default, and no
  failure.
\<close>
theorem storage_unavailable_degrades_to_light:
  "\<exists>tree. Layout_render e Unavailable ps None = (tree, \<lparr>isDark = False\<rparr>) \<and>
      heading_of tree = Some (Layout_header e ps) \<and>
      toggle_of tree =
        Some (Switch toggle False ''#222'' ''#333''
          (Img (moonIcon e) ''moon icon'') (Img (sunIcon e) ''sun icon'')
          ''0 0 2px 3px #B38CD9'' ''0 0 2px 3px #dfb3e6'') \<and>
      session e Unavailable ps [] = \<lparr>isDark = False\<rparr>"
  by (simp add: session_def Layout_render_tree DarkModeToggle_None initialTheme_first_load)

lemma Header_onChange_funpow:
  "(Header_onChange ^^ n) ThemeProvider_initial = (if even n then ''light'' else ''dark'')"
  by (induction n) (simp_all add: Header_onChange_def ThemeProvider_initial_def)

text \<open>
  Claim C7. After any session the theme is one of the two values of the flag and not
  both, and the switch shows the moon icon or the sun icon and not both. In the
  tutorial, after any number of changes the name is \<open>"light"\<close> or \<open>"dark"\<close>, not
  both, and \<open>themes\<close> has a palette for it.
\<close>
theorem exactly_one_mode:
  "(session e st ps evs = \<lparr>isDark = True\<rparr> \<or> session e st ps evs = \<lparr>isDark = False\<rparr>) \<and>
   \<not> (session e st ps evs = \<lparr>isDark = True\<rparr> \<and> session e st ps evs = \<lparr>isDark = False\<rparr>) \<and>
   (shownIcon (fst (DarkModeToggle e st (Some (session e st ps evs))) :: 'c element) =
      Img (moonIcon e) ''moon icon'' \<or>
    shownIcon (fst (DarkModeToggle e st (Some (session e st ps evs))) :: 'c element) =
      Img (sunIcon e) ''sun icon'') \<and>
   \<not> (shownIcon (fst (DarkModeToggle e st (Some (session e st ps evs))) :: 'c element) =
        Img (moonIcon e) ''moon icon'' \<and>
      shownIcon (fst (DarkModeToggle e st (Some (session e st ps evs))) :: 'c element) =
        Img (sunIcon e) ''sun icon'') \<and>
   ((Header_onChange ^^ n) ThemeProvider_initial = ''light'' \<or>
    (Header_onChange ^^ n) ThemeProvider_initial = ''dark'') \<and>
   \<not> ((Header_onChange ^^ n) ThemeProvider_initial = ''light'' \<and>
      (Header_onChange ^^ n) ThemeProvider_initial = ''dark'') \<and>
   map_of themes ((Header_onChange ^^ n) ThemeProvider_initial) \<noteq> None"
  for ps :: "'c props"
proof -
  have a: "session e st ps evs = \<lparr>isDark = True\<rparr> \<or> session e st ps evs = \<lparr>isDark = False\<rparr>"
    by (rule theme_cases)
  have b: "\<not> (session e st ps evs = \<lparr>isDark = True\<rparr> \<and> session e st ps evs = \<lparr>isDark = False\<rparr>)"
    by auto
  have c: "shownIcon (fst (DarkModeToggle e st (Some t)) :: 'c element) =
      (if isDark t then Img (moonIcon e) ''moon icon'' else Img (sunIcon e) ''sun icon'')" for t
    by (simp add: DarkModeToggle_Some shownIcon_def)
  have d: "(Img (moonIcon e) ''moon icon'' :: 'c element) \<noteq> Img (sunIcon e) ''sun icon''"
    by simp
  have n: "(Header_onChange ^^ n) ThemeProvider_initial = ''light'' \<or>
    (Header_onChange ^^ n) ThemeProvider_initial = ''dark''"
    by (simp add: Header_onChange_funpow)
  have m: "map_of themes ((Header_onChange ^^ n) ThemeProvider_initial) \<noteq> None"
    by (simp add: Header_onChange_funpow themes_def)
  show ?thesis
    using a b d n m by (auto simp: c)
qed

text \<open>
  Claim C8. For every environment, storage, props and hook state, \<open>Layout.render\<close>
  returns a complete tree: the container, the header with a heading of level 1 or 3
  that links to \<open>/\<close> and the switch bound to the flag, and \<open>main\<close> with the
  children. \<open>toggle\<close> is defined on the resulting theme and negates its flag.
\<close>
theorem Layout_render_total:
  "\<exists>d hs h c m t.
      Layout_render e st ps cell =
        (Tag Div d
           [Tag Header hs
              [h, Switch toggle c ''#222'' ''#333''
                    (Img (moonIcon e) ''moon icon'') (Img (sunIcon e) ''sun icon'')
                    ''0 0 2px 3px #B38CD9'' ''0 0 2px 3px #dfb3e6''],
            Tag Main [] [Children (children ps)]], t) \<and>
      (heading_level h = Some 1 \<or> heading_level h = Some 3) \<and>
      heading_link h = Some (''/'', [Text (title ps)]) \<and>
      c = isDark t \<and>
      (toggle t = \<lparr>isDark = True\<rparr> \<or> toggle t = \<lparr>isDark = False\<rparr>) \<and>
      isDark (toggle t) = (\<not> isDark t)"
proof (cases cell)
  case None
  show ?thesis
    unfolding None Layout_render_tree DarkModeToggle_None
    by (simp add: heading_level_Layout_header heading_link_Layout_header
        isDark_toggle theme_cases)
next
  case (Some t)
  show ?thesis
    unfolding Some Layout_render_tree DarkModeToggle_Some
    by (simp add: heading_level_Layout_header heading_link_Layout_header
        isDark_toggle theme_cases)
qed

text \<open>
  Claim C9. Rendering \<open>Layout\<close> hands the theme back unchanged, for any props. The
  \<open>onChange\<close> of the rendered switch is \<open>toggle\<close>, a change event applies it, and a
  run of events changes the theme by one \<open>toggle\<close> per change event and by nothing
  else.
\<close>
theorem theme_mutated_only_by_toggle:
  "snd (Layout_render e st ps (Some t)) = t \<and>
   step e st (Render ps) t = t \<and>
   toggle_of (fst (Layout_render e st ps (Some t))) \<noteq> None \<and>
   onChange (the (toggle_of (fst (Layout_render e st ps (Some t))))) = toggle \<and>
   step e st (Change :: 'c event) t = toggle t \<and>
   run e st evs t = (toggle ^^ length (filter (\<lambda>ev. ev = Change) evs)) t"
  for ps :: "'c props"
  by (simp add: snd_Layout_render Layout_render_tree DarkModeToggle_Some run_toggles)

text \<open>
  Claim C10. The heading does not depend on the theme: the trees rendered for the
  same props under two themes (or two storages, or two hook states) have the same
  heading, that of \<open>Layout_header\<close>, and differ only in the \<open>checked\<close> prop of the
  switch.
\<close>
theorem heading_independent_of_theme:
  "heading_of (fst (Layout_render e st ps (Some \<lparr>isDark = True\<rparr>))) =
     heading_of (fst (Layout_render e st ps (Some \<lparr>isDark = False\<rparr>))) \<and>
   heading_of (fst (Layout_render e st1 ps c1)) = heading_of (fst (Layout_render e st2 ps c2)) \<and>
   heading_of (fst (Layout_render e st1 ps c1)) = Some (Layout_header e ps) \<and>
   (\<exists>d hs h m.
      fst (Layout_render e st ps (Some t1)) =
        Tag Div d
          [Tag Header hs
             [h, Switch toggle (isDark t1) ''#222'' ''#333''
                   (Img (moonIcon e) ''moon icon'') (Img (sunIcon e) ''sun icon'')
                   ''0 0 2px 3px #B38CD9'' ''0 0 2px 3px #dfb3e6''], m] \<and>
      fst (Layout_render e st ps (Some t2)) =
        Tag Div d
          [Tag Header hs
             [h, Switch toggle (isDark t2) ''#222'' ''#333''
                   (Img (moonIcon e) ''moon icon'') (Img (sunIcon e) ''sun icon'')
                   ''0 0 2px 3px #B38CD9'' ''0 0 2px 3px #dfb3e6''], m] \<and>
      heading_level h = heading_level (Layout_header e ps) \<and>
      style_of h = style_of (Layout_header e ps) \<and>
      heading_link h = Some (''/'', [Text (title ps)]))"
proof -
  have same: "heading_of (fst (Layout_render e s ps c)) = Some (Layout_header e ps)" for s c
    by (rule heading_of_Layout_render)
  have trees: "\<exists>d hs h m.
      fst (Layout_render e st ps (Some t1)) =
        Tag Div d
          [Tag Header hs
             [h, Switch toggle (isDark t1) ''#222'' ''#333''
                   (Img (moonIcon e) ''moon icon'') (Img (sunIcon e) ''sun icon'')
                   ''0 0 2px 3px #B38CD9'' ''0 0 2px 3px #dfb3e6''], m] \<and>
      fst (Layout_render e st ps (Some t2)) =
        Tag Div d
          [Tag Header hs
             [h, Switch toggle (isDark t2) ''#222'' ''#333''
                   (Img (moonIcon e) ''moon icon'') (Img (sunIcon e) ''sun icon'')
                   ''0 0 2px 3px #B38CD9'' ''0 0 2px 3px #dfb3e6''], m] \<and>
      heading_level h = heading_level (Layout_header e ps) \<and>
      style_of h = style_of (Layout_header e ps) \<and>
      heading_link h = Some (''/'', [Text (title ps)])"
    by (simp add: Layout_render_tree DarkModeToggle_Some heading_link_Layout_header)
  show ?thesis
    using trees by (simp add: same)
qed

end
